theory Spec2Isabelle
  imports Main "HOL-Library.Word"
begin

section \<open>Data model\<close>

text \<open>
  The parser walks a \<^verbatim>\<open>reflect.Value\<close>. The model is a datatype of such values that keeps
  exactly what \<^verbatim>\<open>parser.go\<close> inspects: the kind, the payload, the children, and (for slices)
  whether the dynamic type is \<^verbatim>\<open>[]byte\<close> or \<^verbatim>\<open>[]string\<close>, which the two type assertions of
  \<^verbatim>\<open>encodeSlice\<close> test.
\<close>

datatype kind =
    KInvalid | KBool | KInt | KInt8 | KInt16 | KInt32 | KInt64
  | KUint | KUint8 | KUint16 | KUint32 | KUint64 | KUintptr
  | KFloat32 | KFloat64 | KComplex64 | KComplex128
  | KArray | KChan | KFunc | KInterface | KMap | KPtr | KSlice | KString | KStruct | KUnsafePointer

text \<open>
  \<^item> \<open>VInvalid\<close> is the zero \<^verbatim>\<open>reflect.Value\<close>; \<open>VPtr VInvalid\<close> is a nil pointer, since
    \<^verbatim>\<open>Elem()\<close> of a nil pointer is the zero Value.
  \<^item> \<open>VBytes\<close> is a value of type \<^verbatim>\<open>[]byte\<close>, \<open>VStrings\<close> one of type \<^verbatim>\<open>[]string\<close>, \<open>VSlice\<close>
    a slice of any other type, \<open>VArray\<close> an array of any type. A nil slice and an empty
    slice both have length 0 and the parser never asks \<^verbatim>\<open>IsNil\<close>: both are the empty list.
  \<^item> \<open>VMap\<close> lists the entries in the order in which \<^verbatim>\<open>MapKeys\<close> returns the keys.
  \<^item> A floating-point or complex number is carried as the text \<^verbatim>\<open>fmt.Sprintf("%v", x)\<close>
    prints for it.
  \<^item> \<^verbatim>\<open>int\<close>, \<^verbatim>\<open>uint\<close> and \<^verbatim>\<open>uintptr\<close> are 64 bits wide.
  \<^item> A struct field carries its declared name and its tag as the list of
    \<^verbatim>\<open>key:"value"\<close> pairs that \<^verbatim>\<open>StructTag.Get\<close> searches.
  Values are of predeclared or unnamed composite types and are reached through exported
  fields: on a defined type such as \<^verbatim>\<open>type T int\<close> the assertion
  \<^verbatim>\<open>v.Interface().(int)\<close> of the scalar encoders panics, and so does \<^verbatim>\<open>Interface()\<close> below an
  unexported field.
\<close>

datatype val =
    VInvalid
  | VBool bool
  | VInt "64 word" | VInt8 "8 word" | VInt16 "16 word" | VInt32 "32 word" | VInt64 "64 word"
  | VUint "64 word" | VUint8 "8 word" | VUint16 "16 word" | VUint32 "32 word"
  | VUint64 "64 word" | VUintptr "64 word"
  | VFloat32 string | VFloat64 string | VComplex64 string | VComplex128 string
  | VString string
  | VPtr val
  | VBytes "8 word list"
  | VStrings "string list"
  | VSlice "val list"
  | VArray "val list"
  | VStruct "field list"
  | VMap "(val \<times> val) list"
  | VChan | VFunc | VInterface val | VUnsafePointer
and field = Field (fname: string) (ftag: "(string \<times> string) list") (fval: val)

record KV =
  K :: string
  V :: string

record FormParser =
  tag :: string
  ignoreFlag :: string

text \<open>
  The error that \<^verbatim>\<open>parse\<close> returns, and the panics: the two of the package
  (\<^verbatim>\<open>Unknown type\<close> in \<^verbatim>\<open>encode\<close>, \<^verbatim>\<open>Parse value for tagK(..) failed\<close> in \<^verbatim>\<open>encodeStruct\<close>) and
  \<open>Panic_Reflect\<close>. \<^verbatim>\<open>encodeSlice\<close> and \<^verbatim>\<open>encodeMap\<close> are called only through the table, on a
  slice or array and on a map. The model gives a call on any other kind the value
  \<open>Panic_Reflect\<close>, for the panic of package reflect in \<^verbatim>\<open>Len\<close>, \<^verbatim>\<open>Index\<close> or \<^verbatim>\<open>MapKeys\<close>; no
  call from \<^verbatim>\<open>encode\<close> reaches it.
\<close>

datatype failure =
    Err_InvalidRoot
  | Panic_UnknownType kind
  | Panic_ParseFailed string
  | Panic_Reflect

section \<open>Library functions the parser calls\<close>

fun Kind :: "val \<Rightarrow> kind" where
  "Kind VInvalid = KInvalid"
| "Kind (VBool _) = KBool"
| "Kind (VInt _) = KInt"
| "Kind (VInt8 _) = KInt8"
| "Kind (VInt16 _) = KInt16"
| "Kind (VInt32 _) = KInt32"
| "Kind (VInt64 _) = KInt64"
| "Kind (VUint _) = KUint"
| "Kind (VUint8 _) = KUint8"
| "Kind (VUint16 _) = KUint16"
| "Kind (VUint32 _) = KUint32"
| "Kind (VUint64 _) = KUint64"
| "Kind (VUintptr _) = KUintptr"
| "Kind (VFloat32 _) = KFloat32"
| "Kind (VFloat64 _) = KFloat64"
| "Kind (VComplex64 _) = KComplex64"
| "Kind (VComplex128 _) = KComplex128"
| "Kind (VString _) = KString"
| "Kind (VPtr _) = KPtr"
| "Kind (VBytes _) = KSlice"
| "Kind (VStrings _) = KSlice"
| "Kind (VSlice _) = KSlice"
| "Kind (VArray _) = KArray"
| "Kind (VStruct _) = KStruct"
| "Kind (VMap _) = KMap"
| "Kind VChan = KChan"
| "Kind VFunc = KFunc"
| "Kind (VInterface _) = KInterface"
| "Kind VUnsafePointer = KUnsafePointer"

text \<open>
  The accessors of \<^verbatim>\<open>reflect.Value\<close> that the parser uses: \<^verbatim>\<open>Elem()\<close>, called on pointers only;
  \<^verbatim>\<open>NumField()\<close> with \<^verbatim>\<open>Field(i)\<close> and \<^verbatim>\<open>Type().Field(i)\<close>; \<^verbatim>\<open>Len()\<close> with \<^verbatim>\<open>Index(i)\<close>;
  \<^verbatim>\<open>MapKeys()\<close> with \<^verbatim>\<open>MapIndex(k)\<close>; and the two type assertions
  \<^verbatim>\<open>v.Interface().([]byte)\<close> and \<^verbatim>\<open>v.Interface().([]string)\<close>, \<open>None\<close> when they do not hold.
\<close>

fun Elem :: "val \<Rightarrow> val" where
  "Elem (VPtr v) = v"
| "Elem v = VInvalid"

fun Fields :: "val \<Rightarrow> field list" where
  "Fields (VStruct fs) = fs"
| "Fields v = []"

fun Elems :: "val \<Rightarrow> val list" where
  "Elems (VBytes bs) = map VUint8 bs"
| "Elems (VStrings ss) = map VString ss"
| "Elems (VSlice vs) = vs"
| "Elems (VArray vs) = vs"
| "Elems v = []"

fun MapEntries :: "val \<Rightarrow> (val \<times> val) list" where
  "MapEntries (VMap es) = es"
| "MapEntries v = []"

fun asBytes :: "val \<Rightarrow> 8 word list option" where
  "asBytes (VBytes b) = Some b"
| "asBytes v = None"

fun asStrings :: "val \<Rightarrow> string list option" where
  "asStrings (VStrings ss) = Some ss"
| "asStrings v = None"

text \<open>\<^verbatim>\<open>f.Tag.Get(key)\<close>: the value under the key, the empty string when there is none.\<close>

definition Tag_Get :: "(string \<times> string) list \<Rightarrow> string \<Rightarrow> string" where
  "Tag_Get t key = (case map_of t key of Some v \<Rightarrow> v | None \<Rightarrow> [])"

text \<open>\<^verbatim>\<open>strconv.FormatUint(n, 10)\<close>, \<^verbatim>\<open>strconv.FormatInt(i, 10)\<close>, \<^verbatim>\<open>strconv.FormatBool\<close>.\<close>

fun FormatUint :: "nat \<Rightarrow> string" where
  "FormatUint n =
     (if n < 10 then [''0123456789'' ! n]
      else FormatUint (n div 10) @ [''0123456789'' ! (n mod 10)])"

declare FormatUint.simps [simp del]

definition FormatInt :: "int \<Rightarrow> string" where
  "FormatInt i = (if i < 0 then CHR ''-'' # FormatUint (nat (- i)) else FormatUint (nat i))"

definition FormatBool :: "bool \<Rightarrow> string" where
  "FormatBool b = (if b then ''true'' else ''false'')"

text \<open>\<^verbatim>\<open>strings.Split(s, ",")\<close> and \<^verbatim>\<open>strings.Join(xs, ",")\<close>.\<close>

fun Split :: "string \<Rightarrow> string list" where
  "Split [] = [[]]"
| "Split (c # cs) =
     (if c = CHR '','' then [] # Split cs
      else (case Split cs of [] \<Rightarrow> [[c]] | x # xs \<Rightarrow> (c # x) # xs))"

fun Join :: "string list \<Rightarrow> string" where
  "Join [] = []"
| "Join [x] = x"
| "Join (x # y # ys) = x @ CHR '','' # Join (y # ys)"

text \<open>\<^verbatim>\<open>base64.StdEncoding.EncodeToString\<close>: RFC 4648, standard alphabet, padded with \<^verbatim>\<open>=\<close>.\<close>

definition b64char :: "nat \<Rightarrow> char" where
  "b64char n = ''ABCDEFGHIJKLMNOPQRSTUVWXYZabcdefghijklmnopqrstuvwxyz0123456789+/'' ! n"

fun EncodeToString :: "8 word list \<Rightarrow> string" where
  "EncodeToString [] = []"
| "EncodeToString [a] =
     [b64char (unat a div 4), b64char ((unat a mod 4) * 16), CHR ''='', CHR ''='']"
| "EncodeToString [a, b] =
     [b64char (unat a div 4), b64char ((unat a mod 4) * 16 + unat b div 16),
      b64char ((unat b mod 16) * 4), CHR ''='']"
| "EncodeToString (a # b # c # r) =
     [b64char (unat a div 4), b64char ((unat a mod 4) * 16 + unat b div 16),
      b64char ((unat b mod 16) * 4 + unat c div 64), b64char (unat c mod 64)]
     @ EncodeToString r"

section \<open>The parser\<close>

definition Default :: FormParser where
  "Default = \<lparr>tag = ''zwf'', ignoreFlag = ''-''\<rparr>"

text \<open>\<^verbatim>\<open>New\<close> panics on an empty argument: \<open>None\<close>.\<close>

definition New :: "string \<Rightarrow> string \<Rightarrow> FormParser option" where
  "New t i = (if length t \<le> 0 then None else if length i \<le> 0 then None
              else Some \<lparr>tag = t, ignoreFlag = i\<rparr>)"

text \<open>The keys of the table \<^verbatim>\<open>p.encoders\<close> that \<^verbatim>\<open>init\<close> builds.\<close>

definition encoders :: "kind list" where
  "encoders = [KString, KBool, KInt, KInt8, KInt16, KInt32, KInt64, KUint, KUint8, KUint16, KUint32,
     KUint64, KFloat32, KFloat64, KComplex64, KComplex128, KSlice, KArray, KStruct, KMap, KInvalid]"

definition fieldTag :: "FormParser \<Rightarrow> field \<Rightarrow> string \<times> bool" where
  "fieldTag p f =
     (let t = Tag_Get (ftag f) (tag p) in
      if t = ignoreFlag p then (t, True)
      else if t = [] then (fname f, False)
      else (t, False))"

text \<open>The loop \<^verbatim>\<open>for field.Kind() == reflect.Ptr { field = field.Elem() }\<close> of \<^verbatim>\<open>parse\<close>.\<close>

fun elimPtr :: "val \<Rightarrow> val" where
  "elimPtr (VPtr v) = elimPtr v"
| "elimPtr v = v"

subsection \<open>Scalar encoders\<close>

definition encodeString :: "string \<Rightarrow> string \<Rightarrow> KV list" where
  "encodeString s tagK = [\<lparr>K = tagK, V = s\<rparr>]"

definition encodeBool :: "bool \<Rightarrow> string \<Rightarrow> KV list" where
  "encodeBool b tagK = [\<lparr>K = tagK, V = FormatBool b\<rparr>]"

definition encodeInt :: "64 word \<Rightarrow> string \<Rightarrow> KV list" where
  "encodeInt w tagK = [\<lparr>K = tagK, V = FormatInt (sint w)\<rparr>]"

definition encodeInt8 :: "8 word \<Rightarrow> string \<Rightarrow> KV list" where
  "encodeInt8 w tagK = [\<lparr>K = tagK, V = FormatInt (sint w)\<rparr>]"

definition encodeInt16 :: "16 word \<Rightarrow> string \<Rightarrow> KV list" where
  "encodeInt16 w tagK = [\<lparr>K = tagK, V = FormatInt (sint w)\<rparr>]"

definition encodeInt32 :: "32 word \<Rightarrow> string \<Rightarrow> KV list" where
  "encodeInt32 w tagK = [\<lparr>K = tagK, V = FormatInt (sint w)\<rparr>]"

definition encodeInt64 :: "64 word \<Rightarrow> string \<Rightarrow> KV list" where
  "encodeInt64 w tagK = [\<lparr>K = tagK, V = FormatInt (sint w)\<rparr>]"

definition encodeUint :: "64 word \<Rightarrow> string \<Rightarrow> KV list" where
  "encodeUint w tagK = [\<lparr>K = tagK, V = FormatUint (unat w)\<rparr>]"

definition encodeUint8 :: "8 word \<Rightarrow> string \<Rightarrow> KV list" where
  "encodeUint8 w tagK = [\<lparr>K = tagK, V = FormatUint (unat w)\<rparr>]"

definition encodeUint16 :: "16 word \<Rightarrow> string \<Rightarrow> KV list" where
  "encodeUint16 w tagK = [\<lparr>K = tagK, V = FormatUint (unat w)\<rparr>]"

definition encodeUint32 :: "32 word \<Rightarrow> string \<Rightarrow> KV list" where
  "encodeUint32 w tagK = [\<lparr>K = tagK, V = FormatUint (unat w)\<rparr>]"

definition encodeUint64 :: "64 word \<Rightarrow> string \<Rightarrow> KV list" where
  "encodeUint64 w tagK = [\<lparr>K = tagK, V = FormatUint (unat w)\<rparr>]"

definition encodeFloat32 :: "string \<Rightarrow> string \<Rightarrow> KV list" where
  "encodeFloat32 x tagK = [\<lparr>K = tagK, V = x\<rparr>]"

definition encodeFloat64 :: "string \<Rightarrow> string \<Rightarrow> KV list" where
  "encodeFloat64 x tagK = [\<lparr>K = tagK, V = x\<rparr>]"

definition encodeComplex64 :: "string \<Rightarrow> string \<Rightarrow> KV list" where
  "encodeComplex64 x tagK = [\<lparr>K = tagK, V = x\<rparr>]"

definition encodeComplex128 :: "string \<Rightarrow> string \<Rightarrow> KV list" where
  "encodeComplex128 x tagK = [\<lparr>K = tagK, V = x\<rparr>]"

definition encodeInvalid :: "val \<Rightarrow> string \<Rightarrow> KV list" where
  "encodeInvalid v tagK = []"

subsection \<open>Loops over the pairs already produced\<close>

text \<open>The loop of \<^verbatim>\<open>encodeStruct\<close> that rewrites the key of every pair in place.\<close>

fun encodeStruct_rekey :: "string \<Rightarrow> KV list \<Rightarrow> KV list" where
  "encodeStruct_rekey tagK [] = []"
| "encodeStruct_rekey tagK (kv # kvs) =
     (if tagK \<noteq> ''...'' then kv\<lparr>K := tagK @ ''.'' @ K kv\<rparr> else kv)
     # encodeStruct_rekey tagK kvs"

text \<open>The two inner loops of \<^verbatim>\<open>encodeMap\<close>, over \<^verbatim>\<open>valPair\<close> and over \<^verbatim>\<open>keyPair\<close>.\<close>

fun encodeMap_vals :: "string \<Rightarrow> KV \<Rightarrow> KV list \<Rightarrow> KV list" where
  "encodeMap_vals tagK key [] = []"
| "encodeMap_vals tagK key (val # valPair) =
     (if tagK = ''...'' then \<lparr>K = V key, V = V val\<rparr>
      else \<lparr>K = tagK @ ''.'' @ V key, V = V val\<rparr>)
     # encodeMap_vals tagK key valPair"

fun encodeMap_keys :: "string \<Rightarrow> KV list \<Rightarrow> KV list \<Rightarrow> KV list" where
  "encodeMap_keys tagK [] valPair = []"
| "encodeMap_keys tagK (key # keyPair) valPair =
     encodeMap_vals tagK key valPair @ encodeMap_keys tagK keyPair valPair"

subsection \<open>The early returns of \<^verbatim>\<open>encodeSlice\<close>\<close>

text \<open>
  \<open>Some rt\<close> when \<^verbatim>\<open>encodeSlice\<close> returns before its loop: on a \<^verbatim>\<open>[]byte\<close>, and on a
  \<^verbatim>\<open>[]string\<close> whose \<^verbatim>\<open>tagList[1]\<close> is \<^verbatim>\<open>join\<close>.
\<close>

definition encodeSlice_early :: "val \<Rightarrow> string \<Rightarrow> KV list option" where
  "encodeSlice_early v tagK =
     (case asBytes v of
        Some b \<Rightarrow> Some [\<lparr>K = tagK, V = EncodeToString b\<rparr>]
      | None \<Rightarrow>
          (case asStrings v of
             Some strList \<Rightarrow>
               (let tagList = Split tagK in
                if length tagList > 1 \<and> tagList ! 1 = ''join''
                then Some [\<lparr>K = tagList ! 0, V = Join strList\<rparr>]
                else None)
           | None \<Rightarrow> None))"

subsection \<open>The recursive traversal\<close>

text \<open>A measure for the termination of the traversal: the nesting of a value.\<close>

primrec vsz :: "val \<Rightarrow> nat" and fsz :: "field \<Rightarrow> nat" where
  "vsz VInvalid = 0"
| "vsz (VBool _) = 0"
| "vsz (VInt _) = 0"
| "vsz (VInt8 _) = 0"
| "vsz (VInt16 _) = 0"
| "vsz (VInt32 _) = 0"
| "vsz (VInt64 _) = 0"
| "vsz (VUint _) = 0"
| "vsz (VUint8 _) = 0"
| "vsz (VUint16 _) = 0"
| "vsz (VUint32 _) = 0"
| "vsz (VUint64 _) = 0"
| "vsz (VUintptr _) = 0"
| "vsz (VFloat32 _) = 0"
| "vsz (VFloat64 _) = 0"
| "vsz (VComplex64 _) = 0"
| "vsz (VComplex128 _) = 0"
| "vsz (VString _) = 0"
| "vsz (VPtr v) = Suc (vsz v)"
| "vsz (VBytes bs) = Suc (length bs)"
| "vsz (VStrings ss) = Suc (length ss)"
| "vsz (VSlice vs) = Suc (sum_list (map Suc (map vsz vs)))"
| "vsz (VArray vs) = Suc (sum_list (map Suc (map vsz vs)))"
| "vsz (VStruct fs) = Suc (sum_list (map Suc (map fsz fs)))"
| "vsz (VMap es) = Suc (sum_list (map (\<lambda>e. Suc (fst e + snd e)) (map (map_prod vsz vsz) es)))"
| "vsz VChan = 0"
| "vsz VFunc = 0"
| "vsz (VInterface v) = 0"
| "vsz VUnsafePointer = 0"
| "fsz (Field n t v) = vsz v"

text \<open>
  \<^verbatim>\<open>parse\<close>, \<^verbatim>\<open>encode\<close> and the three composite encoders call one another. Each loop of the
  source that calls \<^verbatim>\<open>encode\<close> is a function of its own: \<open>parse_fields\<close> is the loop of
  \<^verbatim>\<open>parse\<close> over the fields, \<open>encodeSlice_elems\<close> the loop of \<^verbatim>\<open>encodeSlice\<close> over the indices
  from \<open>i\<close> on, \<open>encodeMap_entries\<close> the loop of \<^verbatim>\<open>encodeMap\<close> over the keys. A panic in a callee
  unwinds through every caller: \<open>Inl\<close> is passed on unchanged. \<^verbatim>\<open>encode\<close> looks the kind up in
  \<^verbatim>\<open>p.encoders\<close>; its equations are the entries of that table, and the last one is the panic
  on a kind that has no entry.
\<close>

function (sequential)
      parse :: "FormParser \<Rightarrow> val \<Rightarrow> failure + KV list"
  and parse_fields :: "FormParser \<Rightarrow> field list \<Rightarrow> failure + KV list"
  and encode :: "FormParser \<Rightarrow> val \<Rightarrow> string \<Rightarrow> failure + KV list"
  and encodeSlice :: "FormParser \<Rightarrow> val \<Rightarrow> string \<Rightarrow> failure + KV list"
  and encodeSlice_elems :: "FormParser \<Rightarrow> val list \<Rightarrow> string \<Rightarrow> nat \<Rightarrow> failure + KV list"
  and encodeStruct :: "FormParser \<Rightarrow> val \<Rightarrow> string \<Rightarrow> failure + KV list"
  and encodeMap :: "FormParser \<Rightarrow> val \<Rightarrow> string \<Rightarrow> failure + KV list"
  and encodeMap_entries :: "FormParser \<Rightarrow> (val \<times> val) list \<Rightarrow> string \<Rightarrow> failure + KV list"
where
  "parse p rv =
     (if Kind rv \<noteq> KStruct then
        (if Kind rv = KPtr then parse p (Elem rv) else Inl Err_InvalidRoot)
      else parse_fields p (Fields rv))"

| "parse_fields p [] = Inr []"
| "parse_fields p (f # fs) =
     (let field = elimPtr (fval f) in
      if Kind field = KInvalid then parse_fields p fs
      else let (tagK, drop) = fieldTag p f in
        if drop then parse_fields p fs
        else (case encode p field tagK of
                Inl e \<Rightarrow> Inl e
              | Inr kvs \<Rightarrow>
                  (case parse_fields p fs of
                     Inl e \<Rightarrow> Inl e
                   | Inr rest \<Rightarrow> Inr (kvs @ rest))))"

| "encode p (VPtr v) tagK = encode p v tagK"
| "encode p (VString s) tagK = Inr (encodeString s tagK)"
| "encode p (VBool b) tagK = Inr (encodeBool b tagK)"
| "encode p (VInt w) tagK = Inr (encodeInt w tagK)"
| "encode p (VInt8 w) tagK = Inr (encodeInt8 w tagK)"
| "encode p (VInt16 w) tagK = Inr (encodeInt16 w tagK)"
| "encode p (VInt32 w) tagK = Inr (encodeInt32 w tagK)"
| "encode p (VInt64 w) tagK = Inr (encodeInt64 w tagK)"
| "encode p (VUint w) tagK = Inr (encodeUint w tagK)"
| "encode p (VUint8 w) tagK = Inr (encodeUint8 w tagK)"
| "encode p (VUint16 w) tagK = Inr (encodeUint16 w tagK)"
| "encode p (VUint32 w) tagK = Inr (encodeUint32 w tagK)"
| "encode p (VUint64 w) tagK = Inr (encodeUint64 w tagK)"
| "encode p (VFloat32 x) tagK = Inr (encodeFloat32 x tagK)"
| "encode p (VFloat64 x) tagK = Inr (encodeFloat64 x tagK)"
| "encode p (VComplex64 x) tagK = Inr (encodeComplex64 x tagK)"
| "encode p (VComplex128 x) tagK = Inr (encodeComplex128 x tagK)"
| "encode p (VBytes b) tagK = encodeSlice p (VBytes b) tagK"
| "encode p (VStrings ss) tagK = encodeSlice p (VStrings ss) tagK"
| "encode p (VSlice vs) tagK = encodeSlice p (VSlice vs) tagK"
| "encode p (VArray vs) tagK = encodeSlice p (VArray vs) tagK"
| "encode p (VStruct fs) tagK = encodeStruct p (VStruct fs) tagK"
| "encode p (VMap es) tagK = encodeMap p (VMap es) tagK"
| "encode p VInvalid tagK = Inr (encodeInvalid VInvalid tagK)"
| "encode p v tagK = Inl (Panic_UnknownType (Kind v))"

| "encodeSlice p v tagK =
     (if Kind v \<noteq> KSlice \<and> Kind v \<noteq> KArray then Inl Panic_Reflect
      else (case encodeSlice_early v tagK of
              Some rt \<Rightarrow> Inr rt
            | None \<Rightarrow> encodeSlice_elems p (Elems v) tagK 0))"

| "encodeSlice_elems p [] tagK i = Inr []"
| "encodeSlice_elems p (x # xs) tagK i =
     (case encode p x (tagK @ ''.'' @ FormatUint i) of
        Inl e \<Rightarrow> Inl e
      | Inr kvs \<Rightarrow>
          (case encodeSlice_elems p xs tagK (i + 1) of
             Inl e \<Rightarrow> Inl e
           | Inr rest \<Rightarrow> Inr (kvs @ rest)))"

| "encodeStruct p v tagK =
     (case parse p v of
        Inl Err_InvalidRoot \<Rightarrow> Inl (Panic_ParseFailed tagK)
      | Inl e \<Rightarrow> Inl e
      | Inr kvs \<Rightarrow> Inr (encodeStruct_rekey tagK kvs))"

| "encodeMap p v tagK =
     (if Kind v \<noteq> KMap then Inl Panic_Reflect
      else encodeMap_entries p (MapEntries v) tagK)"

| "encodeMap_entries p [] tagK = Inr []"
| "encodeMap_entries p ((k, x) # es) tagK =
     (case encode p k [] of
        Inl e \<Rightarrow> Inl e
      | Inr keyPair \<Rightarrow>
          (case encode p x [] of
             Inl e \<Rightarrow> Inl e
           | Inr valPair \<Rightarrow>
               (case encodeMap_entries p es tagK of
                  Inl e \<Rightarrow> Inl e
                | Inr rest \<Rightarrow> Inr (encodeMap_keys tagK keyPair valPair @ rest))))"
  by pat_completeness auto

termination
proof -
  have fsz_fval: "fsz f = vsz (fval f)" for f
    by (cases f) simp
  have vsz_elimPtr: "vsz (elimPtr v) \<le> vsz v" for v
    by (induction v rule: elimPtr.induct) auto
  have vsz_Elem: "vsz (Elem v) < vsz v" if "Kind v = KPtr" for v
    using that by (cases v) auto
  have vsz_Fields: "sum_list (map Suc (map fsz (Fields v))) < vsz v" if "Kind v = KStruct" for v
    using that by (cases v) auto
  have ones: "sum_list (map (\<lambda>x. Suc 0) xs) = length xs" for xs :: "'a list"
    by (induction xs) auto
  have vsz_Elems: "sum_list (map Suc (map vsz (Elems v))) < vsz v"
    if "Kind v = KSlice \<or> Kind v = KArray" for v
    using that by (cases v) (auto simp: comp_def ones)
  have vsz_MapEntries:
    "sum_list (map (\<lambda>e. Suc (fst e + snd e)) (map (map_prod vsz vsz) (MapEntries v))) < vsz v"
    if "Kind v = KMap" for v
    using that by (cases v) auto
  show ?thesis
  proof (relation "measure (\<lambda>x. case x of
        Inl (Inl (Inl (p, v))) \<Rightarrow> 3 * vsz v
      | Inl (Inl (Inr (p, fs))) \<Rightarrow> 3 * sum_list (map Suc (map fsz fs)) + 2
      | Inl (Inr (Inl (p, v, t))) \<Rightarrow> 3 * vsz v + 2
      | Inl (Inr (Inr (p, v, t))) \<Rightarrow> 3 * vsz v + 1
      | Inr (Inl (Inl (p, vs, t, i))) \<Rightarrow> 3 * sum_list (map Suc (map vsz vs)) + 2
      | Inr (Inl (Inr (p, v, t))) \<Rightarrow> 3 * vsz v + 1
      | Inr (Inr (Inl (p, v, t))) \<Rightarrow> 3 * vsz v + 1
      | Inr (Inr (Inr (p, es, t))) \<Rightarrow>
          3 * sum_list (map (\<lambda>e. Suc (fst e + snd e)) (map (map_prod vsz vsz) es)) + 2)",
      goal_cases)
    case 1
    show ?case by simp
  next
    case (2 p rv)
    then show ?case using vsz_Elem [of rv] by simp
  next
    case (3 p rv)
    then show ?case using vsz_Fields [of rv] by simp
  next
    case (6 p f fs)
    then show ?case using vsz_elimPtr [of "fval f"] by (simp add: fsz_fval)
  next
    case (15 p v tagK)
    then show ?case using vsz_Elems [of v] by auto
  next
    case (19 p v tagK)
    then show ?case using vsz_MapEntries [of v] by simp
  qed simp_all
qed

declare parse.simps [simp del] encodeSlice.simps [simp del] encodeStruct.simps [simp del]
  encodeMap.simps [simp del]

subsection \<open>The exported operation\<close>

text \<open>The loop \<^verbatim>\<open>for _, kv := range kvs { m[kv.K] = kv.V }\<close> of \<^verbatim>\<open>ToMap\<close>.\<close>

fun ToMap_fill :: "(string \<rightharpoonup> string) \<Rightarrow> KV list \<Rightarrow> (string \<rightharpoonup> string)" where
  "ToMap_fill m [] = m"
| "ToMap_fill m (kv # kvs) = ToMap_fill (m(K kv \<mapsto> V kv)) kvs"

definition ToMap :: "FormParser \<Rightarrow> val \<Rightarrow> failure + (string \<rightharpoonup> string)" where
  "ToMap p v =
     (case parse p v of
        Inl err \<Rightarrow> Inl err
      | Inr kvs \<Rightarrow> Inr (ToMap_fill Map.empty kvs))"

section \<open>Notions used to state the properties\<close>


text \<open>The failure is the panic \<^verbatim>\<open>Unknown type\<close>, on a kind that has no entry in \<^verbatim>\<open>p.encoders\<close>.\<close>

definition unknown_type :: "failure \<Rightarrow> bool" where
  "unknown_type e = (case e of Panic_UnknownType k \<Rightarrow> k \<notin> set encoders | _ \<Rightarrow> False)"




section \<open>Basic facts\<close>

lemma parse_VStruct [simp]: "parse p (VStruct fs) = parse_fields p fs"
  by (simp add: parse.simps)

lemma parse_VPtr [simp]: "parse p (VPtr rv) = parse p rv"
  by (simp add: parse.simps)





lemma elimPtr_idem [simp]: "elimPtr (elimPtr v) = elimPtr v"
  by (induction v rule: elimPtr.induct) auto

lemma parse_fields_append:
  "parse_fields p (xs @ ys) =
     (case parse_fields p xs of
        Inl e \<Rightarrow> Inl e
      | Inr a \<Rightarrow> (case parse_fields p ys of Inl e \<Rightarrow> Inl e | Inr b \<Rightarrow> Inr (a @ b)))"
proof (induction xs)
  case Nil
  show ?case by (simp split: sum.splits)
next
  case (Cons f fs)
  then show ?case
    by (simp add: Let_def split: sum.splits prod.splits)
qed

lemma parse_fields_skip:
  "Kind (elimPtr (fval f)) = KInvalid \<Longrightarrow> parse_fields p (f # fs) = parse_fields p fs"
  by simp

lemma parse_fields_drop:
  "snd (fieldTag p f) \<Longrightarrow> parse_fields p (f # fs) = parse_fields p fs"
  by (cases "fieldTag p f") (auto simp: Let_def)






lemma unknown_type_simps [simp]:
  "\<not> unknown_type Err_InvalidRoot" "\<not> unknown_type Panic_Reflect"
  "\<not> unknown_type (Panic_ParseFailed t)"
  "unknown_type (Panic_UnknownType k) = (k \<notin> set encoders)"
  by (auto simp: unknown_type_def)










lemma ToMap_fill_lookup:
  "ToMap_fill m kvs k =
     (if k \<in> K ` set kvs then Some (V (last (filter (\<lambda>kv. K kv = k) kvs))) else m k)"
proof (induction kvs arbitrary: m)
  case Nil
  show ?case by simp
next
  case (Cons kv kvs)
  show ?case
  proof (cases "k \<in> K ` set kvs")
    case True
    then have "filter (\<lambda>kv. K kv = k) kvs \<noteq> []"
      by (auto simp: filter_empty_conv)
    with True Cons show ?thesis by simp
  next
    case False
    then have "filter (\<lambda>kv. K kv = k) kvs = []"
      by (auto simp: filter_empty_conv)
    with False Cons show ?thesis by auto
  qed
qed



section \<open>Properties\<close>














text \<open>
  C6. A field whose pointers end in nil contributes nothing and causes no failure: the
  struct encodes exactly as it does without that field. And pointers are transparent: a
  field encodes as the same field holding the value behind all its pointers.
\<close>

theorem absent_pointer_field_skipped:
  "(elimPtr (fval f) = VInvalid \<longrightarrow>
      parse p (VStruct (pre @ f # post)) = parse p (VStruct (pre @ post)))
   \<and> parse p (VStruct (pre @ f # post)) =
       parse p (VStruct (pre @ Field (fname f) (ftag f) (elimPtr (fval f)) # post))"
proof -
  have ft: "fieldTag p (Field (fname f) (ftag f) x) = fieldTag p f" for x
    by (simp add: fieldTag_def Let_def)
  have one: "parse_fields p (f # post) =
      parse_fields p (Field (fname f) (ftag f) (elimPtr (fval f)) # post)"
    unfolding parse_fields.simps ft by simp
  have two: "parse_fields p (f # post) = parse_fields p post" if "elimPtr (fval f) = VInvalid"
    using that by simp
  have A: "parse_fields p (pre @ f # post) =
      parse_fields p (pre @ Field (fname f) (ftag f) (elimPtr (fval f)) # post)"
    by (simp only: parse_fields_append [of p pre] one)
  have B: "parse_fields p (pre @ f # post) = parse_fields p (pre @ post)"
    if "elimPtr (fval f) = VInvalid"
    by (simp only: parse_fields_append [of p pre] two [OF that])
  show ?thesis
    using A B unfolding parse_VStruct by blast
qed

theorem absent_pointer_field_skipped_witness:
  "parse Default (VStruct [Field ''A'' [(''zwf'', ''a'')] (VBool True),
       Field ''CPU'' [(''zwf'', ''cpu'')] (VPtr VInvalid),
       Field ''B'' [(''zwf'', ''b'')] (VString ''BB'')])
   = Inr [\<lparr>K = ''a'', V = ''true''\<rparr>, \<lparr>K = ''b'', V = ''BB''\<rparr>]"
proof -
  let ?f = "Field ''CPU'' [(''zwf'', ''cpu'')] (VPtr VInvalid)"
  let ?pre = "[Field ''A'' [(''zwf'', ''a'')] (VBool True)]"
  let ?post = "[Field ''B'' [(''zwf'', ''b'')] (VString ''BB'')]"
  have h: "elimPtr (fval ?f) = VInvalid" by simp
  have "parse Default (VStruct (?pre @ ?post))
      = Inr [\<lparr>K = ''a'', V = ''true''\<rparr>, \<lparr>K = ''b'', V = ''BB''\<rparr>]"
    by (simp add: fieldTag_def Default_def Tag_Get_def encodeBool_def FormatBool_def
        encodeString_def)
  then show ?thesis
    using h absent_pointer_field_skipped [of ?f Default ?pre ?post] by simp
qed



text \<open>
  C8. \<^verbatim>\<open>ToMap\<close> fails as \<^verbatim>\<open>parse\<close> does; otherwise its map has exactly the keys of the pairs
  that \<^verbatim>\<open>parse\<close> returns, each bound to the value of the last pair with that key.
\<close>

theorem ToMap_last_write_wins:
  "ToMap p v =
     (case parse p v of
        Inl err \<Rightarrow> Inl err
      | Inr kvs \<Rightarrow>
          Inr (\<lambda>k. if k \<in> K ` set kvs
                    then Some (V (last (filter (\<lambda>kv. K kv = k) kvs))) else None))"
  by (auto simp: ToMap_def ToMap_fill_lookup split: sum.splits)

theorem ToMap_last_write_wins_witness:
  "map_sum id (\<lambda>m. (m ''x'', m ''y''))
     (ToMap Default (VStruct [Field ''A'' [(''zwf'', ''x'')] (VString ''1''),
        Field ''B'' [(''zwf'', ''x'')] (VString ''2'')]))
   = Inr (Some ''2'', None)"
proof -
  let ?root = "VStruct [Field ''A'' [(''zwf'', ''x'')] (VString ''1''),
        Field ''B'' [(''zwf'', ''x'')] (VString ''2'')]"
  have "parse Default ?root = Inr [\<lparr>K = ''x'', V = ''1''\<rparr>, \<lparr>K = ''x'', V = ''2''\<rparr>]"
    by (simp add: fieldTag_def Default_def Tag_Get_def encodeString_def)
  then show ?thesis
    using ToMap_last_write_wins [of Default ?root] by simp
qed





end
